theory Spec2Isabelle
  imports Main
begin

section \<open>Python values used by the bot\<close>

text \<open>
  A Python \<open>str\<close> is a sequence of Unicode code points, so it is modelled as a list of
  natural numbers (\<open>len\<close> counts code points, and the handlers' literals contain Cyrillic
  letters and emoji). \<open>ustr\<close> embeds an ASCII literal.
\<close>

type_synonym pystr = "nat list"

definition ustr :: "string \<Rightarrow> pystr" where
  "ustr s = map of_char s"

datatype error =
    IndexError
  | AttributeError
  | ValueError
  | JSONDecodeError
  | DataError
  | RuntimeError pystr
  | FlyerError

text \<open>
  \<open>str.isspace\<close> on one code point, which is what \<open>str.split()\<close> without a separator
  splits on: the code points CPython lists as whitespace.
\<close>

definition is_space :: "nat \<Rightarrow> bool" where
  "is_space c \<longleftrightarrow>
     (9 \<le> c \<and> c \<le> 13) \<or> (28 \<le> c \<and> c \<le> 32) \<or> c = 133 \<or> c = 160 \<or> c = 5760
     \<or> (8192 \<le> c \<and> c \<le> 8202) \<or> c = 8232 \<or> c = 8233 \<or> c = 8239 \<or> c = 8287
     \<or> c = 12288"

text \<open>
  \<open>s.split(sep)\<close> for a separator of one code point: every occurrence of the separator
  ends a field, empty fields are kept, and the empty string gives one empty field.
\<close>

fun split_sep :: "nat \<Rightarrow> pystr \<Rightarrow> pystr list" where
  "split_sep sep [] = [[]]"
| "split_sep sep (c # cs) =
     (if c = sep then [] # split_sep sep cs
      else (case split_sep sep cs of
              [] \<Rightarrow> [[c]]
            | w # ws \<Rightarrow> (c # w) # ws))"

text \<open>
  \<open>s.split()\<close>: runs of whitespace separate the fields, leading and trailing whitespace
  is dropped, and no field is empty. \<open>acc\<close> is the field being read, reversed.
\<close>

fun split_ws_from :: "pystr \<Rightarrow> pystr \<Rightarrow> pystr list" where
  "split_ws_from acc [] = (if acc = [] then [] else [rev acc])"
| "split_ws_from acc (c # cs) =
     (if is_space c
      then (if acc = [] then split_ws_from [] cs else rev acc # split_ws_from [] cs)
      else split_ws_from (c # acc) cs)"

definition split_ws :: "pystr \<Rightarrow> pystr list" where
  "split_ws s = split_ws_from [] s"

text \<open>\<open>xs[i]\<close> for a non-negative index: IndexError out of range.\<close>

definition py_index :: "'a list \<Rightarrow> nat \<Rightarrow> error + 'a" where
  "py_index xs i = (if i < length xs then Inr (xs ! i) else Inl IndexError)"

section \<open>The /start command's source token\<close>

text \<open>
  Line 116 of main.py:
  \<^verbatim>\<open>source = message.text.split(" ")[1] if len(message.text.split()) > 1 else None\<close>
  The guard counts the fields of the whitespace split; the value is read from the split
  on single spaces.
\<close>

definition start_source :: "pystr \<Rightarrow> error + pystr option" where
  "start_source text =
     (if length (split_ws text) > 1
      then (case py_index (split_sep 32 text) 1 of
              Inl e \<Rightarrow> Inl e
            | Inr tok \<Rightarrow> Inr (Some tok))
      else Inr None)"

section \<open>Users, messages and the two tables\<close>

text \<open>
  The fields of the bot platform's user object that the program reads. \<open>is_premium\<close> and
  \<open>language_code\<close> are optional there (\<open>None\<close> when the platform sends nothing).
  A message that reaches a command handler is taken to have a sender and a text.
\<close>

record user =
  user_id :: int
  is_premium :: "bool option"
  language_code :: "pystr option"

record message =
  from_user :: user
  "text" :: pystr


text \<open>\<open>bool(x)\<close> and the truth test of \<open>x if c else y\<close> on an optional flag.\<close>

definition py_bool :: "bool option \<Rightarrow> bool" where
  "py_bool b \<longleftrightarrow> b = Some True"

text \<open>
  A row of table \<open>users\<close> and a row of table \<open>traffic_log\<close>, as \<open>init_db\<close> creates them.
  The surrogate key \<open>id\<close> (BIGSERIAL) is left out: no statement of the program reads or
  writes it. BIGINT and TIMESTAMPTZ values are integers; the driver's range check on
  arguments is not part of the model, and every store call is taken to succeed.
\<close>

record user_row =
  tg_id :: int
  row_is_premium :: bool
  source :: "pystr option"
  flyer_passed :: bool
  created_at :: int
  last_seen_at :: int

record log_row =
  log_tg_id :: int
  event :: pystr
  log_source :: "pystr option"
  log_is_premium :: "bool option"
  log_created_at :: int

text \<open>
  The state the handlers act on: the two tables and the messages the bot has sent with
  \<open>message.answer\<close>, oldest first.
\<close>

record world =
  users :: "user_row list"
  traffic_log :: "log_row list"
  sent :: "pystr list"

definition init_db :: world where
  "init_db = \<lparr>users = [], traffic_log = [], sent = []\<rparr>"

text \<open>
  \<open>upsert_user\<close>, lines 78 to 88. \<open>now\<close> is the value of \<open>NOW()\<close> for the statement.
  \<open>excluded_row\<close> is the VALUES row with the defaults of the two timestamps (EXCLUDED in
  the statement). Without a row for \<open>tg_id\<close> it is inserted; with one, the DO UPDATE
  assignments are applied to the conflicting row.
\<close>

definition merge_row :: "int \<Rightarrow> user_row \<Rightarrow> user_row \<Rightarrow> user_row" where
  "merge_row now excluded r =
     r\<lparr>row_is_premium := row_is_premium excluded,
       last_seen_at := now,
       flyer_passed := (flyer_passed r \<or> flyer_passed excluded),
       source := (case source r of None \<Rightarrow> source excluded | Some s \<Rightarrow> Some s)\<rparr>"

definition excluded_row :: "int \<Rightarrow> user \<Rightarrow> pystr option \<Rightarrow> bool \<Rightarrow> user_row" where
  "excluded_row now u src passed =
     \<lparr>tg_id = user_id u, row_is_premium = py_bool (is_premium u), source = src,
      flyer_passed = passed, created_at = now, last_seen_at = now\<rparr>"

definition upsert_user :: "world \<Rightarrow> int \<Rightarrow> user \<Rightarrow> pystr option \<Rightarrow> bool \<Rightarrow> world" where
  "upsert_user w now u src passed =
     (let excluded = excluded_row now u src passed
      in if \<exists>r \<in> set (users w). tg_id r = user_id u
         then w\<lparr>users := map (\<lambda>r. if tg_id r = user_id u then merge_row now excluded r else r)
                              (users w)\<rparr>
         else w\<lparr>users := users w @ [excluded]\<rparr>)"

text \<open>\<open>log_event\<close>, lines 90 to 95: one more row in \<open>traffic_log\<close>.\<close>

definition log_event :: "world \<Rightarrow> int \<Rightarrow> user \<Rightarrow> pystr \<Rightarrow> pystr option \<Rightarrow> world" where
  "log_event w now u ev src =
     w\<lparr>traffic_log := traffic_log w @
          [\<lparr>log_tg_id = user_id u, event = ev, log_source = src,
            log_is_premium = Some (py_bool (is_premium u)), log_created_at = now\<rparr>]\<rparr>"

section \<open>Configuration\<close>

record config =
  bot_token :: pystr
  flyer_key_premium :: pystr
  flyer_key_regular :: pystr
  database_url :: pystr
  port :: int

text \<open>
  \<open>int(s)\<close> on a string, base ten: surrounding whitespace is dropped, one sign is allowed,
  and single underscores may stand between digits. Only the ASCII digits are covered
  (Python also reads the other decimal digits of Unicode, and refuses very long digit
  strings); \<open>None\<close> stands for ValueError.
\<close>

fun parse_digits :: "int \<Rightarrow> bool \<Rightarrow> pystr \<Rightarrow> int option" where
  "parse_digits acc prev [] = (if prev then Some acc else None)"
| "parse_digits acc prev (c # cs) =
     (if 48 \<le> c \<and> c \<le> 57 then parse_digits (acc * 10 + int (c - 48)) True cs
      else if c = 95 \<and> prev then parse_digits acc False cs
      else None)"

definition py_int :: "pystr \<Rightarrow> int option" where
  "py_int s =
     (case rev (dropWhile is_space (rev (dropWhile is_space s))) of
        [] \<Rightarrow> None
      | c # cs \<Rightarrow>
          if c = 45 then map_option uminus (parse_digits 0 False cs)
          else if c = 43 then parse_digits 0 False cs
          else parse_digits 0 False (c # cs))"

text \<open>
  \<open>if not X: raise RuntimeError(msg)\<close> for a value of \<open>os.getenv\<close>: an unset variable
  and an empty one both raise.
\<close>

definition require :: "pystr option \<Rightarrow> string \<Rightarrow> error + pystr" where
  "require v name =
     (case v of
        None \<Rightarrow> Inl (RuntimeError ([10060] @ ustr '' Missing '' @ ustr name))
      | Some s \<Rightarrow> if s = [] then Inl (RuntimeError ([10060] @ ustr '' Missing '' @ ustr name))
                  else Inr s)"

text \<open>
  Lines 22 to 35. \<open>env\<close> is the process environment after \<open>load_dotenv\<close>. The port is
  converted on line 26, before the four checks, so a port that is not a number raises
  first.
\<close>

definition load_config :: "(string \<Rightarrow> pystr option) \<Rightarrow> error + config" where
  "load_config env =
     (case py_int (case env ''PORT'' of None \<Rightarrow> ustr ''8000'' | Some p \<Rightarrow> p) of
        None \<Rightarrow> Inl ValueError
      | Some PORT \<Rightarrow>
         (case require (env ''BOT_TOKEN'') ''BOT_TOKEN'' of
            Inl e \<Rightarrow> Inl e
          | Inr BOT_TOKEN \<Rightarrow>
         (case require (env ''FLYER_KEY_PREMIUM'') ''FLYER_KEY_PREMIUM'' of
            Inl e \<Rightarrow> Inl e
          | Inr FLYER_KEY_PREMIUM \<Rightarrow>
         (case require (env ''FLYER_KEY_REGULAR'') ''FLYER_KEY_REGULAR'' of
            Inl e \<Rightarrow> Inl e
          | Inr FLYER_KEY_REGULAR \<Rightarrow>
         (case require (env ''DATABASE_URL'') ''DATABASE_URL'' of
            Inl e \<Rightarrow> Inl e
          | Inr DATABASE_URL \<Rightarrow>
              Inr \<lparr>bot_token = BOT_TOKEN, flyer_key_premium = FLYER_KEY_PREMIUM,
                    flyer_key_regular = FLYER_KEY_REGULAR, database_url = DATABASE_URL,
                    port = PORT\<rparr>)))))"

section \<open>The access gate\<close>

text \<open>
  The check service is outside the program. \<open>flyer key uid lang\<close> is the answer of
  \<open>Flyer(key).check(user_id=uid, language_code=lang)\<close>: a boolean, or the exception the
  client raised.
\<close>

type_synonym flyer_service = "pystr \<Rightarrow> int \<Rightarrow> pystr \<Rightarrow> error + bool"

text \<open>
  \<open>check_flyer\<close>, lines 97 to 99. \<open>flyer_premium\<close> and \<open>flyer_regular\<close> are the clients
  built on lines 43 and 44 from the two keys of the configuration.
  \<open>user.language_code or "ru"\<close> takes the default for \<open>None\<close> and for the empty string.
\<close>

definition flyer_premium :: "config \<Rightarrow> pystr" where
  "flyer_premium cfg = flyer_key_premium cfg"

definition flyer_regular :: "config \<Rightarrow> pystr" where
  "flyer_regular cfg = flyer_key_regular cfg"

definition check_flyer :: "config \<Rightarrow> flyer_service \<Rightarrow> user \<Rightarrow> error + bool" where
  "check_flyer cfg flyer u =
     (let flyer_client = (if py_bool (is_premium u) then flyer_premium cfg
                          else flyer_regular cfg)
      in flyer flyer_client (user_id u)
           (case language_code u of
              None \<Rightarrow> ustr ''ru''
            | Some l \<Rightarrow> if l = [] then ustr ''ru'' else l))"

text \<open>
  A handler returns the state it leaves behind and how it ended: \<open>Inr\<close> with its return
  value, or \<open>Inl\<close> with the exception that escaped. What was written before an exception
  stays written. \<open>clock k\<close> is the value of \<open>NOW()\<close> in the handler's statement number
  \<open>k\<close>.

  \<open>ensure_access\<close>, lines 101 to 106, and \<open>ensure_access_cb\<close>, lines 108 to 112.
\<close>

definition ensure_access ::
  "config \<Rightarrow> flyer_service \<Rightarrow> (nat \<Rightarrow> int) \<Rightarrow> world \<Rightarrow> message \<Rightarrow> pystr option
     \<Rightarrow> world \<times> (error + bool)" where
  "ensure_access cfg flyer clock w m src =
     (let u = from_user m;
          w1 = log_event w (clock 0) u (ustr ''check_access'') src
      in case check_flyer cfg flyer u of
           Inl e \<Rightarrow> (w1, Inl e)
         | Inr ok \<Rightarrow> (upsert_user w1 (clock 1) u src ok, Inr ok))"


section \<open>Command handlers\<close>

text \<open>
  The two replies, as code points. The welcome text is a waving hand and the Russian for
  "Welcome!", a line \<open>Premium:\<close> with a gem and "yes" or a cross mark and "no", the
  Russian for "Checks passed." and a pointer to \<open>/menu\<close>.
\<close>

definition premium_label :: "bool \<Rightarrow> pystr" where
  "premium_label p = (if p then [128142, 32, 1044, 1072] else [10060, 32, 1053, 1077, 1090])"

definition welcome_text :: "user \<Rightarrow> pystr" where
  "welcome_text u =
     [128075, 32, 1044, 1086, 1073, 1088, 1086, 32, 1087, 1086, 1078, 1072, 1083, 1086,
      1074, 1072, 1090, 1100, 33, 10, 10]
     @ ustr ''Premium: '' @ premium_label (py_bool (is_premium u)) @ [10]
     @ [1055, 1088, 1086, 1074, 1077, 1088, 1082, 1080, 32, 1087, 1088, 1086, 1081, 1076,
        1077, 1085, 1099, 46, 10]
     @ ustr ''/menu - ''
     @ [1086, 1090, 1082, 1088, 1099, 1090, 1100, 32, 1084, 1077, 1085, 1102]"


text \<open>\<open>message.answer(t)\<close>; sending is taken to succeed.\<close>

definition answer :: "world \<Rightarrow> pystr \<Rightarrow> world" where
  "answer w t = w\<lparr>sent := sent w @ [t]\<rparr>"

text \<open>\<open>start_cmd\<close>, lines 114 to 127.\<close>

definition start_cmd ::
  "config \<Rightarrow> flyer_service \<Rightarrow> (nat \<Rightarrow> int) \<Rightarrow> world \<Rightarrow> message \<Rightarrow> world \<times> (error + unit)" where
  "start_cmd cfg flyer clock w m =
     (case start_source (text m) of
        Inl e \<Rightarrow> (w, Inl e)
      | Inr src \<Rightarrow>
          (let w1 = log_event w (clock 0) (from_user m) (ustr ''start'') src
           in case ensure_access cfg flyer (\<lambda>k. clock (Suc k)) w1 m src of
                (w2, Inl e) \<Rightarrow> (w2, Inl e)
              | (w2, Inr ok) \<Rightarrow>
                  if \<not> ok then (w2, Inr ())
                  else (answer w2 (welcome_text (from_user m)), Inr ())))"


section \<open>The webhook\<close>

text \<open>
  The value \<open>request.json()\<close> returns. Numbers with a fraction or an exponent (Python
  floats) are not modelled. An object is a list of bindings read with \<open>map_of\<close>, so the
  first binding of a key is the dictionary's entry.
\<close>

datatype json =
    JNull
  | JBool bool
  | JInt int
  | JStr pystr
  | JArr "json list"
  | JObj "(pystr \<times> json) list"

record request =
  body :: "json option"

record response =
  status_code :: nat
  json_body :: json

text \<open>\<open>x.get(key, default)\<close>: only a dictionary has the method.\<close>

definition py_get :: "json \<Rightarrow> pystr \<Rightarrow> json \<Rightarrow> error + json" where
  "py_get x k dflt =
     (case x of
        JObj kvs \<Rightarrow> (case map_of kvs k of None \<Rightarrow> Inr dflt | Some v \<Rightarrow> Inr v)
      | _ \<Rightarrow> Inl AttributeError)"

text \<open>
  How the driver passes a Python value for the BIGINT parameter \<open>$1\<close>: \<open>None\<close> is NULL,
  an integer is itself, a boolean is an integer in Python, and any other value is refused.
\<close>

definition bind_bigint :: "json \<Rightarrow> error + int option" where
  "bind_bigint v =
     (case v of
        JNull \<Rightarrow> Inr None
      | JInt i \<Rightarrow> Inr (Some i)
      | JBool b \<Rightarrow> Inr (Some (if b then 1 else 0))
      | _ \<Rightarrow> Inl DataError)"

text \<open>
  \<open>UPDATE users SET flyer_passed = TRUE WHERE tg_id = $1\<close>: with NULL for \<open>$1\<close> the
  comparison holds for no row.
\<close>

definition set_flyer_passed :: "world \<Rightarrow> int option \<Rightarrow> world" where
  "set_flyer_passed w p =
     (case p of
        None \<Rightarrow> w
      | Some i \<Rightarrow> w\<lparr>users := map (\<lambda>r. if tg_id r = i then r\<lparr>flyer_passed := True\<rparr> else r)
                                 (users w)\<rparr>)"

definition status_true :: response where
  "status_true = \<lparr>status_code = 200, json_body = JObj [(ustr ''status'', JBool True)]\<rparr>"

text \<open>
  \<open>flyer_webhook\<close>, lines 136 to 147. A body that is not JSON (\<open>body = None\<close>) makes
  \<open>request.json()\<close> raise.
\<close>

definition flyer_webhook :: "world \<Rightarrow> request \<Rightarrow> world \<times> (error + response)" where
  "flyer_webhook w req =
     (case body req of
        None \<Rightarrow> (w, Inl JSONDecodeError)
      | Some payload \<Rightarrow>
         (case py_get payload (ustr ''type'') JNull of
            Inl e \<Rightarrow> (w, Inl e)
          | Inr event_type \<Rightarrow>
         (case py_get payload (ustr ''data'') (JObj []) of
            Inl e \<Rightarrow> (w, Inl e)
          | Inr data \<Rightarrow>
              if event_type = JStr (ustr ''sub_completed'')
              then (case py_get data (ustr ''user_id'') JNull of
                      Inl e \<Rightarrow> (w, Inl e)
                    | Inr uid \<Rightarrow>
                       (case bind_bigint uid of
                          Inl e \<Rightarrow> (w, Inl e)
                        | Inr p \<Rightarrow> (set_flyer_passed w p, Inr status_true)))
              else (w, Inr status_true))))"

section \<open>Observations and example values\<close>

text \<open>
  \<open>profile w i\<close> is the row \<open>SELECT * FROM users WHERE tg_id = i\<close> finds, and
  \<open>one_row_per_identity\<close> is the UNIQUE constraint on \<open>tg_id\<close>.
\<close>

definition profile :: "world \<Rightarrow> int \<Rightarrow> user_row option" where
  "profile w i = find (\<lambda>r. tg_id r = i) (users w)"


text \<open>Values for the examples below.\<close>

definition example_config :: config where
  "example_config =
     \<lparr>bot_token = ustr ''token'', flyer_key_premium = ustr ''key-premium'',
      flyer_key_regular = ustr ''key-regular'', database_url = ustr ''postgres://db'',
      port = 8000\<rparr>"

definition user42 :: user where
  "user42 = \<lparr>user_id = 42, is_premium = None, language_code = None\<rparr>"

definition start_message :: message where
  "start_message = \<lparr>from_user = user42, text = ustr ''/start''\<rparr>"

definition flyer_allows :: flyer_service where
  "flyer_allows key uid lang = Inr True"

definition flyer_denies :: flyer_service where
  "flyer_denies key uid lang = Inr False"

definition example_clock :: "nat \<Rightarrow> int" where
  "example_clock k = 1000 + int k"

definition row42 :: user_row where
  "row42 = \<lparr>tg_id = 42, row_is_premium = False, source = None, flyer_passed = False,
            created_at = 7, last_seen_at = 9\<rparr>"

definition world42 :: world where
  "world42 = \<lparr>users = [row42], traffic_log = [], sent = []\<rparr>"

definition sub_completed :: "json \<Rightarrow> request" where
  "sub_completed uid =
     \<lparr>body = Some (JObj [(ustr ''type'', JStr (ustr ''sub_completed'')),
                        (ustr ''data'', JObj [(ustr ''user_id'', uid)])])\<rparr>"

text \<open>Two check services that allow exactly one call each, and a premium user.\<close>

definition only_premium_en :: flyer_service where
  "only_premium_en key uid lang = Inr (key = ustr ''key-premium'' \<and> uid = 7 \<and> lang = ustr ''en'')"

definition only_regular_ru :: flyer_service where
  "only_regular_ru key uid lang = Inr (key = ustr ''key-regular'' \<and> uid = 42 \<and> lang = ustr ''ru'')"

definition premium_user :: user where
  "premium_user = \<lparr>user_id = 7, is_premium = Some True, language_code = Some (ustr ''en'')\<rparr>"

definition example_env :: "string \<Rightarrow> pystr option" where
  "example_env name =
     (if name = ''BOT_TOKEN'' then Some (ustr ''token'')
      else if name = ''FLYER_KEY_PREMIUM'' then Some (ustr ''key-premium'')
      else if name = ''FLYER_KEY_REGULAR'' then Some (ustr ''key-regular'')
      else if name = ''DATABASE_URL'' then Some (ustr ''postgres://db'')
      else None)"

text \<open>A store with two profiles.\<close>

definition other_row :: user_row where
  "other_row = \<lparr>tg_id = 43, row_is_premium = True, source = Some (ustr ''promo1''),
                flyer_passed = False, created_at = 3, last_seen_at = 4\<rparr>"

definition world_two :: world where
  "world_two = \<lparr>users = [row42, other_row], traffic_log = [], sent = []\<rparr>"

section \<open>Facts about the store operations\<close>

lemma users_log_event [simp]: "users (log_event w now u ev src) = users w"
  by (simp add: log_event_def)

lemma sent_log_event [simp]: "sent (log_event w now u ev src) = sent w"
  by (simp add: log_event_def)

lemma sent_upsert_user [simp]: "sent (upsert_user w now u src passed) = sent w"
  by (simp add: upsert_user_def Let_def)

lemma traffic_log_upsert_user [simp]:
  "traffic_log (upsert_user w now u src passed) = traffic_log w"
  by (simp add: upsert_user_def Let_def)

lemma profile_log_event [simp]: "profile (log_event w now u ev src) i = profile w i"
  by (simp add: profile_def)

lemma tg_id_merge_row [simp]: "tg_id (merge_row now e r) = tg_id r"
  by (simp add: merge_row_def)

lemma find_map_keeping_key:
  assumes "\<And>r. tg_id (f r) = tg_id r"
  shows "find (\<lambda>r. tg_id r = i) (map f xs) = map_option f (find (\<lambda>r. tg_id r = i) xs)"
  using assms by (induction xs) simp_all

lemma find_append_single:
  "find P (xs @ [x]) = (case find P xs of None \<Rightarrow> (if P x then Some x else None) | Some y \<Rightarrow> Some y)"
  by (induction xs) simp_all

lemma find_None_iff_key: "find (\<lambda>r. tg_id r = i) xs = None \<longleftrightarrow> (\<forall>r \<in> set xs. tg_id r \<noteq> i)"
  by (induction xs) simp_all

lemma profile_upsert_user_same:
  "profile (upsert_user w now u src passed) (user_id u) =
     Some (case profile w (user_id u) of
             None \<Rightarrow> excluded_row now u src passed
           | Some r \<Rightarrow> merge_row now (excluded_row now u src passed) r)"
proof (cases "profile w (user_id u)")
  case None
  then have none: "\<forall>r \<in> set (users w). tg_id r \<noteq> user_id u"
    by (simp add: profile_def find_None_iff_key)
  then have "users (upsert_user w now u src passed) = users w @ [excluded_row now u src passed]"
    by (auto simp add: upsert_user_def Let_def excluded_row_def)
  with None show ?thesis
    by (simp add: profile_def find_append_single excluded_row_def)
next
  case (Some r)
  then have "\<exists>r \<in> set (users w). tg_id r = user_id u"
    using find_None_iff_key [of "user_id u" "users w"] by (auto simp add: profile_def)
  then have "users (upsert_user w now u src passed) =
      map (\<lambda>r. if tg_id r = user_id u then merge_row now (excluded_row now u src passed) r else r)
        (users w)"
    by (simp add: upsert_user_def Let_def excluded_row_def)
  moreover from Some have "tg_id r = user_id u"
    by (auto simp add: profile_def find_Some_iff)
  ultimately show ?thesis using Some
    by (simp add: profile_def find_map_keeping_key)
qed

lemma profile_upsert_user_other:
  assumes "i \<noteq> user_id u"
  shows "profile (upsert_user w now u src passed) i = profile w i"
proof (cases "\<exists>r \<in> set (users w). tg_id r = user_id u")
  case True
  then have "users (upsert_user w now u src passed) =
      map (\<lambda>r. if tg_id r = user_id u then merge_row now (excluded_row now u src passed) r else r)
        (users w)"
    by (simp add: upsert_user_def Let_def excluded_row_def)
  moreover have "find (\<lambda>r. tg_id r = i) (map (\<lambda>r. if tg_id r = user_id u then merge_row now e r else r) xs)
      = find (\<lambda>r. tg_id r = i) xs" for e xs
    using assms by (induction xs) auto
  ultimately show ?thesis by (simp add: profile_def)
next
  case False
  then have "users (upsert_user w now u src passed) = users w @ [excluded_row now u src passed]"
    by (simp add: upsert_user_def Let_def excluded_row_def)
  then show ?thesis using assms
    by (simp add: profile_def find_append_single excluded_row_def split: option.splits)
qed

lemma upsert_user_keeps_passed:
  assumes "profile w i = Some r" and "flyer_passed r"
  shows "\<exists>r'. profile (upsert_user w now u src passed) i = Some r' \<and> flyer_passed r'"
proof (cases "i = user_id u")
  case True
  with assms show ?thesis
    by (simp add: profile_upsert_user_same merge_row_def)
next
  case False
  with assms show ?thesis
    by (simp add: profile_upsert_user_other)
qed

lemma upsert_user_keeps_source:
  assumes "profile w i = Some r" and "source r = Some s"
  shows "\<exists>r'. profile (upsert_user w now u src passed) i = Some r' \<and> source r' = Some s"
proof (cases "i = user_id u")
  case True
  with assms show ?thesis
    by (simp add: profile_upsert_user_same merge_row_def)
next
  case False
  with assms show ?thesis
    by (simp add: profile_upsert_user_other)
qed

lemma ensure_access_result:
  assumes "ensure_access cfg flyer clock w m src = (w', Inr ok)"
  shows "w' = upsert_user (log_event w (clock 0) (from_user m) (ustr ''check_access'') src)
                (clock 1) (from_user m) src ok"
  using assms by (auto simp add: ensure_access_def Let_def split: sum.splits)


section \<open>The sticky passed flag\<close>

text \<open>
  C1. The merge of \<open>upsert_user\<close> never takes \<open>flyer_passed\<close> back: a profile that
  is stored as passed is still stored as passed after an upsert for any user with any
  observed result. In particular, after the gate has run for a user with an allowing
  check and then with a denying check, the user's profile is stored as passed.
\<close>

theorem upsert_user_flyer_passed_sticky:
  "(profile w i = Some r \<and> flyer_passed r \<longrightarrow>
      (\<exists>r'. profile (upsert_user w now u src passed) i = Some r' \<and> flyer_passed r'))
   \<and> (ensure_access cfg flyer1 clock1 w m1 src1 = (w1, Inr True)
        \<and> ensure_access cfg flyer2 clock2 w1 m2 src2 = (w2, Inr False)
        \<and> user_id (from_user m2) = user_id (from_user m1) \<longrightarrow>
      (\<exists>r'. profile w2 (user_id (from_user m1)) = Some r' \<and> flyer_passed r'))"
proof (intro conjI impI)
  assume "profile w i = Some r \<and> flyer_passed r"
  then show "\<exists>r'. profile (upsert_user w now u src passed) i = Some r' \<and> flyer_passed r'"
    using upsert_user_keeps_passed by blast
next
  assume a: "ensure_access cfg flyer1 clock1 w m1 src1 = (w1, Inr True)
        \<and> ensure_access cfg flyer2 clock2 w1 m2 src2 = (w2, Inr False)
        \<and> user_id (from_user m2) = user_id (from_user m1)"
  let ?i = "user_id (from_user m1)"
  from a have w1: "w1 = upsert_user (log_event w (clock1 0) (from_user m1) (ustr ''check_access'') src1)
                (clock1 1) (from_user m1) src1 True"
    using ensure_access_result by blast
  from a have w2: "w2 = upsert_user (log_event w1 (clock2 0) (from_user m2) (ustr ''check_access'') src2)
                (clock2 1) (from_user m2) src2 False"
    using ensure_access_result by blast
  from w1 obtain r1 where r1: "profile w1 ?i = Some r1" "flyer_passed r1"
    by (simp add: profile_upsert_user_same merge_row_def excluded_row_def split: option.splits)
  then have "profile (log_event w1 (clock2 0) (from_user m2) (ustr ''check_access'') src2) ?i = Some r1"
    by simp
  with r1 w2 show "\<exists>r'. profile w2 ?i = Some r' \<and> flyer_passed r'"
    using upsert_user_keeps_passed by blast
qed

theorem upsert_user_flyer_passed_sticky_witness:
  "(\<exists>r'. profile (upsert_user world42 5 user42 None False) 42 = Some r' \<and> \<not> flyer_passed r')
   \<and> (\<exists>r'. profile (upsert_user (upsert_user world42 5 user42 None True) 6 user42 None False) 42
              = Some r' \<and> flyer_passed r')
   \<and> (\<exists>r'. profile (fst (ensure_access example_config flyer_denies example_clock
                  (fst (ensure_access example_config flyer_allows example_clock init_db
                          start_message None))
                  start_message None)) 42 = Some r' \<and> flyer_passed r')"
proof (intro conjI)
  show "\<exists>r'. profile (upsert_user world42 5 user42 None False) 42 = Some r' \<and> \<not> flyer_passed r'"
    by (simp add: profile_def upsert_user_def excluded_row_def merge_row_def world42_def
        row42_def user42_def)
next
  have "profile (upsert_user world42 5 user42 None True) 42 =
          Some (row42\<lparr>last_seen_at := 5, flyer_passed := True\<rparr>)"
    by (simp add: profile_def upsert_user_def excluded_row_def merge_row_def world42_def
        row42_def user42_def py_bool_def)
  then show "\<exists>r'. profile (upsert_user (upsert_user world42 5 user42 None True) 6 user42 None False) 42
              = Some r' \<and> flyer_passed r'"
    using upsert_user_flyer_passed_sticky
      [where w = "upsert_user world42 5 user42 None True" and i = 42
         and r = "row42\<lparr>last_seen_at := 5, flyer_passed := True\<rparr>" and now = 6
         and u = user42 and src = None and passed = False]
    by simp
next
  let ?w1 = "fst (ensure_access example_config flyer_allows example_clock init_db start_message None)"
  let ?w2 = "fst (ensure_access example_config flyer_denies example_clock ?w1 start_message None)"
  have 1: "ensure_access example_config flyer_allows example_clock init_db start_message None
             = (?w1, Inr True)"
    by (simp add: ensure_access_def check_flyer_def flyer_allows_def Let_def)
  have 2: "ensure_access example_config flyer_denies example_clock ?w1 start_message None
             = (?w2, Inr False)"
    by (simp add: ensure_access_def check_flyer_def flyer_denies_def Let_def)
  have 3: "user_id (from_user start_message) = 42"
    by (simp add: start_message_def user42_def)
  show "\<exists>r'. profile ?w2 42 = Some r' \<and> flyer_passed r'"
    using upsert_user_flyer_passed_sticky
      [where cfg = example_config and ?flyer1.0 = flyer_allows and ?clock1.0 = example_clock
         and w = init_db and ?m1.0 = start_message and ?src1.0 = None and ?w1.0 = ?w1
         and ?flyer2.0 = flyer_denies and ?clock2.0 = example_clock and ?m2.0 = start_message
         and ?src2.0 = None and ?w2.0 = ?w2] 1 2 3
    by simp
qed

section \<open>The acquisition source\<close>

text \<open>
  C2. The stored \<open>source\<close> is kept by COALESCE: a profile whose source is set keeps it
  through an upsert for any user with any source. For a profile whose source is not set
  yet (no row for the identity, or a row with a null source), an upsert with source
  \<open>a\<close> followed by an upsert with source \<open>b\<close> stores \<open>a\<close>.
\<close>

theorem upsert_user_source_first_wins:
  "(profile w i = Some r \<and> source r = Some s \<longrightarrow>
      (\<exists>r'. profile (upsert_user w now u src passed) i = Some r' \<and> source r' = Some s))
   \<and> ((profile w (user_id u1) = None \<or> (\<exists>r0. profile w (user_id u1) = Some r0 \<and> source r0 = None))
        \<and> user_id u2 = user_id u1 \<longrightarrow>
      (\<exists>r'. profile (upsert_user (upsert_user w t1 u1 (Some a) p1) t2 u2 (Some b) p2) (user_id u1)
               = Some r' \<and> source r' = Some a))"
proof (intro conjI impI)
  assume "profile w i = Some r \<and> source r = Some s"
  then show "\<exists>r'. profile (upsert_user w now u src passed) i = Some r' \<and> source r' = Some s"
    using upsert_user_keeps_source by blast
next
  assume a: "(profile w (user_id u1) = None \<or> (\<exists>r0. profile w (user_id u1) = Some r0 \<and> source r0 = None))
        \<and> user_id u2 = user_id u1"
  then obtain r1 where r1: "profile (upsert_user w t1 u1 (Some a) p1) (user_id u1) = Some r1"
      "source r1 = Some a"
    by (auto simp add: profile_upsert_user_same merge_row_def excluded_row_def)
  then show "\<exists>r'. profile (upsert_user (upsert_user w t1 u1 (Some a) p1) t2 u2 (Some b) p2) (user_id u1)
               = Some r' \<and> source r' = Some a"
    using upsert_user_keeps_source by blast
qed

theorem upsert_user_source_first_wins_witness:
  "(\<exists>r'. profile (upsert_user (upsert_user world42 5 user42 (Some (ustr ''a'')) False) 6 user42
                   (Some (ustr ''b'')) True) 42 = Some r' \<and> source r' = Some (ustr ''a''))
   \<and> (\<exists>r'. profile (upsert_user (upsert_user init_db 5 user42 (Some (ustr ''a'')) False) 6 user42
                   (Some (ustr ''b'')) True) 42 = Some r' \<and> source r' = Some (ustr ''a''))"
proof (intro conjI)
  have "profile world42 (user_id user42) = Some row42 \<and> source row42 = None"
    by (simp add: profile_def world42_def row42_def user42_def)
  then show "\<exists>r'. profile (upsert_user (upsert_user world42 5 user42 (Some (ustr ''a'')) False) 6 user42
                   (Some (ustr ''b'')) True) 42 = Some r' \<and> source r' = Some (ustr ''a'')"
    using upsert_user_source_first_wins
      [where w = world42 and ?u1.0 = user42 and ?u2.0 = user42 and ?t1.0 = 5 and ?t2.0 = 6
         and a = "ustr ''a''" and b = "ustr ''b''" and ?p1.0 = False and ?p2.0 = True]
    by (simp add: user42_def)
next
  have "profile init_db (user_id user42) = None"
    by (simp add: profile_def init_db_def)
  then show "\<exists>r'. profile (upsert_user (upsert_user init_db 5 user42 (Some (ustr ''a'')) False) 6 user42
                   (Some (ustr ''b'')) True) 42 = Some r' \<and> source r' = Some (ustr ''a'')"
    using upsert_user_source_first_wins
      [where w = init_db and ?u1.0 = user42 and ?u2.0 = user42 and ?t1.0 = 5 and ?t2.0 = 6
         and a = "ustr ''a''" and b = "ustr ''b''" and ?p1.0 = False and ?p2.0 = True]
    by (simp add: user42_def)
qed

section \<open>Parsing the source token\<close>

text \<open>
  With one space between the command and a token, the token is the source; with nothing
  but whitespace after the command, the source is \<open>None\<close>.
\<close>

lemma split_ws_from_word:
  assumes "\<forall>c \<in> set s. \<not> is_space c"
  shows "split_ws_from acc (s @ rest) = split_ws_from (rev s @ acc) rest"
  using assms by (induction s arbitrary: acc) simp_all

lemma split_ws_from_spaces:
  assumes "\<forall>c \<in> set sp. is_space c"
  shows "split_ws_from acc sp = (if acc = [] then [] else [rev acc])"
  using assms by (induction sp arbitrary: acc) simp_all

lemma split_sep_no_sep:
  assumes "sep \<notin> set s"
  shows "split_sep sep (s @ sep # rest) = s # split_sep sep rest"
  using assms by (induction s) simp_all

lemma split_sep_last:
  assumes "sep \<notin> set s"
  shows "split_sep sep s = [s]"
  using assms by (induction s) simp_all

lemma is_space_32: "is_space 32"
  by (simp add: is_space_def)

lemma start_source_no_token:
  assumes "\<forall>c \<in> set cmd. \<not> is_space c" and "\<forall>c \<in> set sp. is_space c"
  shows "start_source (cmd @ sp) = Inr None"
proof -
  have "split_ws (cmd @ sp) = split_ws_from (rev cmd) sp"
    using split_ws_from_word [OF assms(1), of "[]" sp] by (simp add: split_ws_def)
  then have "length (split_ws (cmd @ sp)) \<le> 1"
    by (simp add: split_ws_from_spaces [OF assms(2)])
  then show ?thesis
    by (simp add: start_source_def)
qed

lemma start_source_token:
  assumes "\<forall>c \<in> set cmd. \<not> is_space c" and "\<forall>c \<in> set tok. \<not> is_space c"
    and "cmd \<noteq> []" and "tok \<noteq> []"
  shows "start_source (cmd @ [32] @ tok) = Inr (Some tok)"
proof -
  have "split_ws (cmd @ [32] @ tok) = split_ws_from (rev cmd) (32 # tok)"
    using split_ws_from_word [OF assms(1), of "[]" "32 # tok"] by (simp add: split_ws_def)
  also have "\<dots> = cmd # split_ws_from [] (tok @ [])"
    using assms(3) by (simp add: is_space_32)
  also have "split_ws_from [] (tok @ []) = [tok]"
    using assms(4) by (simp only: split_ws_from_word [OF assms(2)]) simp
  finally have words: "length (split_ws (cmd @ [32] @ tok)) > 1"
    by simp
  have "32 \<notin> set cmd" and "32 \<notin> set tok"
    using assms(1,2) is_space_32 by blast+
  then have "split_sep 32 (cmd @ [32] @ tok) = [cmd, tok]"
    by (simp add: split_sep_no_sep split_sep_last)
  with words show ?thesis
    by (simp add: start_source_def py_index_def)
qed

text \<open>
  C3. The claim is that a missing and an empty token both give \<open>None\<close> and that a
  token is passed on as it is. The code does so for the texts above, not for every text:
  the guard counts the fields of \<open>split()\<close> and the value is field 1 of \<open>split(" ")\<close>.
  With two spaces before the token that field is the empty string, which is stored as the
  profile's source, and with a line break instead of a space there is no such field and
  the handler raises IndexError.
\<close>

theorem start_source_second_space:
  "start_source (ustr ''/start  promo1'') = Inr (Some [])
   \<and> start_source (ustr ''/start'' @ [10] @ ustr ''promo1'') = Inl IndexError
   \<and> start_source (ustr ''/start promo1'') = Inr (Some (ustr ''promo1''))
   \<and> profile (fst (start_cmd example_config flyer_allows example_clock init_db
                      \<lparr>from_user = user42, text = ustr ''/start  promo1''\<rparr>)) 42
       = Some \<lparr>tg_id = 42, row_is_premium = False, source = Some [], flyer_passed = True,
               created_at = 1002, last_seen_at = 1002\<rparr>"
proof (intro conjI)
  show 1: "start_source (ustr ''/start  promo1'') = Inr (Some [])"
    by (simp add: start_source_def split_ws_def py_index_def ustr_def is_space_def)
  show "start_source (ustr ''/start'' @ [10] @ ustr ''promo1'') = Inl IndexError"
    by (simp add: start_source_def split_ws_def py_index_def ustr_def is_space_def)
  show "start_source (ustr ''/start promo1'') = Inr (Some (ustr ''promo1''))"
    by (simp add: start_source_def split_ws_def py_index_def ustr_def is_space_def)
  show "profile (fst (start_cmd example_config flyer_allows example_clock init_db
                      \<lparr>from_user = user42, text = ustr ''/start  promo1''\<rparr>)) 42
       = Some \<lparr>tg_id = 42, row_is_premium = False, source = Some [], flyer_passed = True,
               created_at = 1002, last_seen_at = 1002\<rparr>"
    by (simp add: start_cmd_def 1 ensure_access_def check_flyer_def flyer_allows_def Let_def
        answer_def profile_def upsert_user_def excluded_row_def log_event_def init_db_def
        user42_def py_bool_def example_clock_def)
qed

section \<open>Routing the check\<close>

lemma require_Inr: "require v name = Inr s \<Longrightarrow> v = Some s \<and> s \<noteq> []"
  by (auto simp add: require_def split: option.splits if_splits)

lemma load_config_Inr:
  assumes "load_config env = Inr cfg"
  shows "env ''BOT_TOKEN'' = Some (bot_token cfg) \<and> bot_token cfg \<noteq> []
       \<and> env ''FLYER_KEY_PREMIUM'' = Some (flyer_key_premium cfg) \<and> flyer_key_premium cfg \<noteq> []
       \<and> env ''FLYER_KEY_REGULAR'' = Some (flyer_key_regular cfg) \<and> flyer_key_regular cfg \<noteq> []
       \<and> env ''DATABASE_URL'' = Some (database_url cfg) \<and> database_url cfg \<noteq> []"
  using assms unfolding load_config_def
  by (auto split: option.splits sum.splits dest!: require_Inr)

text \<open>
  C4. The check is called with the premium key for a premium user and with the regular
  key for any other user, with the user's identity, and with the user's language code, or
  with \<open>ru\<close> when the user has none. The two keys are the values of
  \<open>FLYER_KEY_PREMIUM\<close> and \<open>FLYER_KEY_REGULAR\<close> in the environment.
\<close>

theorem check_flyer_routing:
  "(is_premium u = Some True \<and> language_code u = None \<longrightarrow>
      check_flyer cfg flyer u = flyer (flyer_key_premium cfg) (user_id u) (ustr ''ru''))
   \<and> (is_premium u = Some True \<and> language_code u = Some l \<and> l \<noteq> [] \<longrightarrow>
      check_flyer cfg flyer u = flyer (flyer_key_premium cfg) (user_id u) l)
   \<and> (is_premium u \<noteq> Some True \<and> language_code u = None \<longrightarrow>
      check_flyer cfg flyer u = flyer (flyer_key_regular cfg) (user_id u) (ustr ''ru''))
   \<and> (is_premium u \<noteq> Some True \<and> language_code u = Some l \<and> l \<noteq> [] \<longrightarrow>
      check_flyer cfg flyer u = flyer (flyer_key_regular cfg) (user_id u) l)
   \<and> (load_config env = Inr cfg \<longrightarrow>
      env ''FLYER_KEY_PREMIUM'' = Some (flyer_key_premium cfg)
      \<and> env ''FLYER_KEY_REGULAR'' = Some (flyer_key_regular cfg))"
proof (intro conjI impI)
  assume "load_config env = Inr cfg"
  then show "env ''FLYER_KEY_PREMIUM'' = Some (flyer_key_premium cfg)"
    and "env ''FLYER_KEY_REGULAR'' = Some (flyer_key_regular cfg)"
    using load_config_Inr by blast+
qed (simp_all add: check_flyer_def py_bool_def flyer_premium_def flyer_regular_def)

lemma py_int_8000: "py_int (ustr ''8000'') = Some 8000"
  by (simp add: py_int_def ustr_def is_space_def)

lemma ustr_eq_Nil [simp]: "ustr s = [] \<longleftrightarrow> s = []"
  by (simp add: ustr_def)

lemma load_config_example: "load_config example_env = Inr example_config"
  by (simp add: load_config_def example_env_def py_int_8000 require_def example_config_def)

theorem check_flyer_routing_witness:
  "check_flyer example_config only_premium_en premium_user = Inr True
   \<and> check_flyer example_config only_premium_en (premium_user\<lparr>is_premium := Some False\<rparr>) = Inr False
   \<and> check_flyer example_config only_premium_en (premium_user\<lparr>language_code := None\<rparr>) = Inr False
   \<and> check_flyer example_config only_regular_ru user42 = Inr True
   \<and> example_env ''FLYER_KEY_PREMIUM'' = Some (ustr ''key-premium'')"
proof (intro conjI)
  show "check_flyer example_config only_premium_en premium_user = Inr True"
    using check_flyer_routing [where u = premium_user and l = "ustr ''en''"
        and cfg = example_config and flyer = only_premium_en]
    by (simp add: premium_user_def example_config_def only_premium_en_def ustr_def)
  show "check_flyer example_config only_premium_en (premium_user\<lparr>is_premium := Some False\<rparr>) = Inr False"
    using check_flyer_routing [where u = "premium_user\<lparr>is_premium := Some False\<rparr>"
        and l = "ustr ''en''" and cfg = example_config and flyer = only_premium_en]
    by (simp add: premium_user_def example_config_def only_premium_en_def ustr_def)
  show "check_flyer example_config only_premium_en (premium_user\<lparr>language_code := None\<rparr>) = Inr False"
    using check_flyer_routing [where u = "premium_user\<lparr>language_code := None\<rparr>"
        and cfg = example_config and flyer = only_premium_en]
    by (simp add: premium_user_def example_config_def only_premium_en_def ustr_def)
  show "check_flyer example_config only_regular_ru user42 = Inr True"
    using check_flyer_routing [where u = user42 and cfg = example_config
        and flyer = only_regular_ru]
    by (simp add: user42_def example_config_def only_regular_ru_def)
  show "example_env ''FLYER_KEY_PREMIUM'' = Some (ustr ''key-premium'')"
    using check_flyer_routing [where env = example_env and cfg = example_config]
      load_config_example
    by (simp add: example_config_def)
qed

section \<open>The /start handler\<close>

lemma users_upsert_user_cong:
  "users w1 = users w2 \<Longrightarrow>
     users (upsert_user w1 now u src passed) = users (upsert_user w2 now u src passed)"
  by (simp add: upsert_user_def Let_def)

lemma profile_cong: "users w1 = users w2 \<Longrightarrow> profile w1 i = profile w2 i"
  by (simp add: profile_def)

lemma start_cmd_checked:
  assumes "start_source (text m) = Inr src" and "check_flyer cfg flyer (from_user m) = Inr ok"
  shows "start_cmd cfg flyer clock w m =
     (let w2 = upsert_user
                 (log_event (log_event w (clock 0) (from_user m) (ustr ''start'') src)
                    (clock 1) (from_user m) (ustr ''check_access'') src)
                 (clock 2) (from_user m) src ok
      in (if ok then answer w2 (welcome_text (from_user m)) else w2, Inr ()))"
  using assms by (simp add: start_cmd_def ensure_access_def Let_def numeral_2_eq_2)

text \<open>
  C5. For a /start message whose text yields a source (the handler gets past line 116)
  and whose check denies access, the handler returns without sending a message; it has
  appended exactly two rows to \<open>traffic_log\<close>, a \<open>start\<close> event and then a
  \<open>check_access\<close> event for the user, and has upserted the user's profile with
  \<open>flyer_passed = False\<close>, so a new profile is stored as not passed and an existing one
  keeps its flag. When the check allows access, the handler sends one message, the welcome
  text, which contains the label of the user's premium flag; the two labels differ.
\<close>

theorem start_cmd_gate:
  assumes "start_source (text m) = Inr src"
  shows "(check_flyer cfg flyer (from_user m) = Inr False \<longrightarrow>
           (\<exists>w' e1 e2 r'. start_cmd cfg flyer clock w m = (w', Inr ())
              \<and> sent w' = sent w
              \<and> traffic_log w' = traffic_log w @ [e1, e2]
              \<and> event e1 = ustr ''start'' \<and> event e2 = ustr ''check_access''
              \<and> log_tg_id e1 = user_id (from_user m) \<and> log_tg_id e2 = user_id (from_user m)
              \<and> log_source e1 = src \<and> log_source e2 = src
              \<and> users w' = users (upsert_user w (clock 2) (from_user m) src False)
              \<and> profile w' (user_id (from_user m)) = Some r'
              \<and> flyer_passed r' =
                  (case profile w (user_id (from_user m)) of
                     None \<Rightarrow> False
                   | Some r \<Rightarrow> flyer_passed r)))
       \<and> (check_flyer cfg flyer (from_user m) = Inr True \<longrightarrow>
           (\<exists>w'. start_cmd cfg flyer clock w m = (w', Inr ())
              \<and> sent w' = sent w @ [welcome_text (from_user m)]))
       \<and> (\<exists>pre post. welcome_text (from_user m) =
              pre @ ustr ''Premium: ''
                @ premium_label (is_premium (from_user m) = Some True) @ post)
       \<and> premium_label True \<noteq> premium_label False"
proof (intro conjI impI)
  let ?u = "from_user m"
  let ?w1 = "log_event (log_event w (clock 0) ?u (ustr ''start'') src)
                    (clock 1) ?u (ustr ''check_access'') src"
  assume deny: "check_flyer cfg flyer ?u = Inr False"
  let ?w' = "upsert_user ?w1 (clock 2) ?u src False"
  have run: "start_cmd cfg flyer clock w m = (?w', Inr ())"
    using start_cmd_checked [OF assms deny] by (simp add: Let_def)
  have users: "users ?w' = users (upsert_user w (clock 2) ?u src False)"
    by (rule users_upsert_user_cong) simp
  have "profile ?w' (user_id ?u) = profile (upsert_user w (clock 2) ?u src False) (user_id ?u)"
    using users by (rule profile_cong)
  then obtain r' where r': "profile ?w' (user_id ?u) = Some r'"
    "flyer_passed r' = (case profile w (user_id ?u) of None \<Rightarrow> False | Some r \<Rightarrow> flyer_passed r)"
    by (simp add: profile_upsert_user_same merge_row_def excluded_row_def split: option.splits)
  have log: "traffic_log ?w' = traffic_log w @
      [\<lparr>log_tg_id = user_id ?u, event = ustr ''start'', log_source = src,
        log_is_premium = Some (py_bool (is_premium ?u)), log_created_at = clock 0\<rparr>,
       \<lparr>log_tg_id = user_id ?u, event = ustr ''check_access'', log_source = src,
        log_is_premium = Some (py_bool (is_premium ?u)), log_created_at = clock 1\<rparr>]"
    by (simp add: log_event_def)
  have sent: "sent ?w' = sent w"
    by simp
  show "\<exists>w' e1 e2 r'. start_cmd cfg flyer clock w m = (w', Inr ())
              \<and> sent w' = sent w
              \<and> traffic_log w' = traffic_log w @ [e1, e2]
              \<and> event e1 = ustr ''start'' \<and> event e2 = ustr ''check_access''
              \<and> log_tg_id e1 = user_id (from_user m) \<and> log_tg_id e2 = user_id (from_user m)
              \<and> log_source e1 = src \<and> log_source e2 = src
              \<and> users w' = users (upsert_user w (clock 2) (from_user m) src False)
              \<and> profile w' (user_id (from_user m)) = Some r'
              \<and> flyer_passed r' =
                  (case profile w (user_id (from_user m)) of
                     None \<Rightarrow> False
                   | Some r \<Rightarrow> flyer_passed r)"
    apply (rule exI [of _ ?w'])
    apply (rule exI [of _ "\<lparr>log_tg_id = user_id ?u, event = ustr ''start'', log_source = src,
        log_is_premium = Some (py_bool (is_premium ?u)), log_created_at = clock 0\<rparr>"])
    apply (rule exI [of _ "\<lparr>log_tg_id = user_id ?u, event = ustr ''check_access'', log_source = src,
        log_is_premium = Some (py_bool (is_premium ?u)), log_created_at = clock 1\<rparr>"])
    apply (rule exI [of _ r'])
    using run users r' log sent apply simp
    done
next
  assume allow: "check_flyer cfg flyer (from_user m) = Inr True"
  show "\<exists>w'. start_cmd cfg flyer clock w m = (w', Inr ())
              \<and> sent w' = sent w @ [welcome_text (from_user m)]"
    using start_cmd_checked [OF assms allow] by (simp add: Let_def answer_def)
next
  show "\<exists>pre post. welcome_text (from_user m) =
              pre @ ustr ''Premium: ''
                @ premium_label (is_premium (from_user m) = Some True) @ post"
    unfolding welcome_text_def py_bool_def by (intro exI) (rule refl)
next
  show "premium_label True \<noteq> premium_label False"
    by (simp add: premium_label_def)
qed

theorem start_cmd_gate_witness:
  "start_source (text start_message) = Inr None
   \<and> check_flyer example_config flyer_denies (from_user start_message) = Inr False
   \<and> check_flyer example_config flyer_allows (from_user start_message) = Inr True
   \<and> (\<exists>w' e1 e2 r'.
          start_cmd example_config flyer_denies example_clock init_db start_message = (w', Inr ())
          \<and> sent w' = []
          \<and> traffic_log w' = [e1, e2]
          \<and> event e1 = ustr ''start'' \<and> event e2 = ustr ''check_access''
          \<and> profile w' 42 = Some r' \<and> \<not> flyer_passed r')
   \<and> (\<exists>w'. start_cmd example_config flyer_allows example_clock init_db start_message = (w', Inr ())
          \<and> sent w' = [welcome_text user42])"
proof -
  have src: "start_source (text start_message) = Inr None"
    by (simp add: start_message_def start_source_def split_ws_def ustr_def is_space_def)
  have deny: "check_flyer example_config flyer_denies (from_user start_message) = Inr False"
    by (simp add: check_flyer_def flyer_denies_def)
  have allow: "check_flyer example_config flyer_allows (from_user start_message) = Inr True"
    by (simp add: check_flyer_def flyer_allows_def)
  have new: "profile init_db 42 = None" "sent init_db = []" "traffic_log init_db = []"
    by (simp_all add: profile_def init_db_def)
  have u: "from_user start_message = user42" "user_id user42 = 42"
    by (simp_all add: start_message_def user42_def)
  have "\<exists>w' e1 e2 r'.
          start_cmd example_config flyer_denies example_clock init_db start_message = (w', Inr ())
          \<and> sent w' = []
          \<and> traffic_log w' = [e1, e2]
          \<and> event e1 = ustr ''start'' \<and> event e2 = ustr ''check_access''
          \<and> profile w' 42 = Some r' \<and> \<not> flyer_passed r'"
    using start_cmd_gate [OF src, where cfg = example_config and flyer = flyer_denies
        and clock = example_clock and w = init_db] deny new u
    by auto
  moreover have "\<exists>w'. start_cmd example_config flyer_allows example_clock init_db start_message
          = (w', Inr ()) \<and> sent w' = [welcome_text user42]"
    using start_cmd_gate [OF src, where cfg = example_config and flyer = flyer_allows
        and clock = example_clock and w = init_db] allow new u
    by auto
  ultimately show ?thesis
    using src deny allow by blast
qed

section \<open>The webhook handler\<close>



lemma set_flyer_passed_idem:
  "set_flyer_passed (set_flyer_passed w p) p = set_flyer_passed w p"
  by (cases p) (simp_all add: set_flyer_passed_def comp_def cong: map_cong)

lemma profile_set_flyer_passed:
  "profile (set_flyer_passed w (Some i)) j =
     map_option (\<lambda>r. if tg_id r = i then r\<lparr>flyer_passed := True\<rparr> else r) (profile w j)"
  by (simp add: set_flyer_passed_def profile_def find_map_keeping_key)

lemma flyer_webhook_sub_completed_int:
  assumes "body req = Some (JObj kvs)"
    and "map_of kvs (ustr ''type'') = Some (JStr (ustr ''sub_completed''))"
    and "map_of kvs (ustr ''data'') = Some (JObj dkvs)"
    and "map_of dkvs (ustr ''user_id'') = Some (JInt i)"
  shows "flyer_webhook w req = (set_flyer_passed w (Some i), Inr status_true)"
  using assms by (simp add: flyer_webhook_def py_get_def bind_bigint_def)

lemma flyer_webhook_other_type:
  assumes "body req = Some (JObj kvs)"
    and "map_of kvs (ustr ''type'') \<noteq> Some (JStr (ustr ''sub_completed''))"
  shows "flyer_webhook w req = (w, Inr status_true)"
  using assms
  by (auto simp add: flyer_webhook_def py_get_def split: option.splits json.splits)

text \<open>
  C6. For a request whose body is an object with \<open>type = "sub_completed"\<close> and a
  \<open>data\<close> object whose \<open>user_id\<close> is the identity of a stored profile, the handler
  answers \<open>{"status": true}\<close> and stores the profile as passed, whatever the flag was
  before; handling the same request again changes nothing more. For a body with any other
  \<open>type\<close>, or none, the state is unchanged and the answer is the same.
\<close>

theorem flyer_webhook_sets_passed:
  "(body req = Some (JObj kvs)
      \<and> map_of kvs (ustr ''type'') = Some (JStr (ustr ''sub_completed''))
      \<and> map_of kvs (ustr ''data'') = Some (JObj dkvs)
      \<and> map_of dkvs (ustr ''user_id'') = Some (JInt i)
      \<and> profile w i = Some r \<longrightarrow>
     (\<exists>w'. flyer_webhook w req = (w', Inr status_true)
        \<and> profile w' i = Some (r\<lparr>flyer_passed := True\<rparr>)
        \<and> flyer_webhook w' req = (w', Inr status_true)))
   \<and> (body req = Some (JObj kvs)
      \<and> map_of kvs (ustr ''type'') \<noteq> Some (JStr (ustr ''sub_completed'')) \<longrightarrow>
     flyer_webhook w req = (w, Inr status_true))
   \<and> status_code status_true = 200
   \<and> json_body status_true = JObj [(ustr ''status'', JBool True)]"
proof (intro conjI impI)
  assume a: "body req = Some (JObj kvs)
      \<and> map_of kvs (ustr ''type'') = Some (JStr (ustr ''sub_completed''))
      \<and> map_of kvs (ustr ''data'') = Some (JObj dkvs)
      \<and> map_of dkvs (ustr ''user_id'') = Some (JInt i)
      \<and> profile w i = Some r"
  let ?w' = "set_flyer_passed w (Some i)"
  from a have run: "flyer_webhook w' req = (set_flyer_passed w' (Some i), Inr status_true)" for w'
    using flyer_webhook_sub_completed_int by blast
  from a have "tg_id r = i"
    by (auto simp add: profile_def find_Some_iff)
  with a have "profile ?w' i = Some (r\<lparr>flyer_passed := True\<rparr>)"
    by (simp add: profile_set_flyer_passed)
  moreover have "flyer_webhook ?w' req = (?w', Inr status_true)"
    using run [of ?w'] by (simp add: set_flyer_passed_idem)
  ultimately show "\<exists>w'. flyer_webhook w req = (w', Inr status_true)
        \<and> profile w' i = Some (r\<lparr>flyer_passed := True\<rparr>)
        \<and> flyer_webhook w' req = (w', Inr status_true)"
    using run [of w] by blast
next
  assume "body req = Some (JObj kvs)
      \<and> map_of kvs (ustr ''type'') \<noteq> Some (JStr (ustr ''sub_completed''))"
  then show "flyer_webhook w req = (w, Inr status_true)"
    using flyer_webhook_other_type by blast
qed (simp_all add: status_true_def)

lemma ustr_type_data:
  "ustr ''type'' \<noteq> ustr ''data''" "ustr ''data'' \<noteq> ustr ''type''"
  by (simp_all add: ustr_def)

theorem flyer_webhook_sets_passed_witness:
  "profile world42 42 = Some row42 \<and> \<not> flyer_passed row42
   \<and> (\<exists>w'. flyer_webhook world42 (sub_completed (JInt 42)) = (w', Inr status_true)
          \<and> profile w' 42 = Some (row42\<lparr>flyer_passed := True\<rparr>)
          \<and> flyer_webhook w' (sub_completed (JInt 42)) = (w', Inr status_true))
   \<and> flyer_webhook world42 \<lparr>body = Some (JObj [(ustr ''type'', JStr (ustr ''ping''))])\<rparr>
       = (world42, Inr status_true)"
proof -
  have p: "profile world42 42 = Some row42" "\<not> flyer_passed row42"
    by (simp_all add: profile_def world42_def row42_def)
  have b: "body (sub_completed (JInt 42)) =
      Some (JObj [(ustr ''type'', JStr (ustr ''sub_completed'')),
                  (ustr ''data'', JObj [(ustr ''user_id'', JInt 42)])])"
    by (simp add: sub_completed_def)
  have "\<exists>w'. flyer_webhook world42 (sub_completed (JInt 42)) = (w', Inr status_true)
          \<and> profile w' 42 = Some (row42\<lparr>flyer_passed := True\<rparr>)
          \<and> flyer_webhook w' (sub_completed (JInt 42)) = (w', Inr status_true)"
    using flyer_webhook_sets_passed [where req = "sub_completed (JInt 42)" and w = world42
        and kvs = "[(ustr ''type'', JStr (ustr ''sub_completed'')),
                    (ustr ''data'', JObj [(ustr ''user_id'', JInt 42)])]"
        and dkvs = "[(ustr ''user_id'', JInt 42)]" and i = 42 and r = row42] p b
    by (simp add: ustr_type_data)
  moreover have "flyer_webhook world42 \<lparr>body = Some (JObj [(ustr ''type'', JStr (ustr ''ping''))])\<rparr>
       = (world42, Inr status_true)"
    using flyer_webhook_sets_passed [where req = "\<lparr>body = Some (JObj [(ustr ''type'', JStr (ustr ''ping''))])\<rparr>"
        and w = world42 and kvs = "[(ustr ''type'', JStr (ustr ''ping''))]"]
    by (simp add: ustr_def)
  ultimately show ?thesis using p by blast
qed


lemma flyer_webhook_data_not_object:
  assumes "body req = Some (JObj kvs)"
    and "map_of kvs (ustr ''type'') = Some (JStr (ustr ''sub_completed''))"
    and "map_of kvs (ustr ''data'') = Some d" and "\<forall>dkvs. d \<noteq> JObj dkvs"
  shows "flyer_webhook w req = (w, Inl AttributeError)"
  using assms
  by (cases d) (simp_all add: flyer_webhook_def py_get_def)



lemma flyer_webhook_cases:
  "\<exists>p. fst (flyer_webhook w req) = set_flyer_passed w p"
proof -
  have same: "w = set_flyer_passed w None"
    by (simp add: set_flyer_passed_def)
  show ?thesis
    unfolding flyer_webhook_def
    by (auto split: option.splits sum.splits intro: exI [of _ None] simp add: same [symmetric])
qed

lemma set_flyer_passed_frame:
  "traffic_log (set_flyer_passed w p) = traffic_log w"
  "sent (set_flyer_passed w p) = sent w"
  "length (users (set_flyer_passed w p)) = length (users w)"
  by (cases p; simp add: set_flyer_passed_def)+

lemma set_flyer_passed_row:
  assumes "k < length (users w)"
  shows "users (set_flyer_passed w p) ! k =
     (users w ! k)\<lparr>flyer_passed := flyer_passed (users (set_flyer_passed w p) ! k)\<rparr>"
  using assms by (cases p) (simp_all add: set_flyer_passed_def)

text \<open>
  C10. Whatever the request, the webhook handler inserts no event and sends no message,
  the table \<open>users\<close> keeps its rows in place, and a row can differ from what it was in
  \<open>flyer_passed\<close> only: \<open>tg_id\<close>, \<open>is_premium\<close>, \<open>source\<close>, \<open>created_at\<close> and
  \<open>last_seen_at\<close> are as before. When \<open>data.user_id\<close> is an integer, every row of
  another identity is unchanged. An upsert, in contrast, sets \<open>last_seen_at\<close> of the
  user's profile to the time of the statement.
\<close>

theorem flyer_webhook_frame:
  assumes "flyer_webhook w req = (w', res)"
  shows "traffic_log w' = traffic_log w \<and> sent w' = sent w
       \<and> length (users w') = length (users w)
       \<and> (\<forall>k < length (users w).
             users w' ! k = (users w ! k)\<lparr>flyer_passed := flyer_passed (users w' ! k)\<rparr>)
       \<and> (\<forall>kvs dkvs i. body req = Some (JObj kvs)
             \<and> map_of kvs (ustr ''data'') = Some (JObj dkvs)
             \<and> map_of dkvs (ustr ''user_id'') = Some (JInt i) \<longrightarrow>
             (\<forall>k < length (users w). tg_id (users w ! k) \<noteq> i \<longrightarrow> users w' ! k = users w ! k))
       \<and> (\<exists>r. profile (upsert_user w now u src passed) (user_id u) = Some r
              \<and> last_seen_at r = now)"
proof (intro conjI allI impI)
  from assms obtain p where p: "w' = set_flyer_passed w p"
    using flyer_webhook_cases [of w req] by auto
  show "traffic_log w' = traffic_log w" "sent w' = sent w" "length (users w') = length (users w)"
    by (simp_all add: p set_flyer_passed_frame)
  show "users w' ! k = (users w ! k)\<lparr>flyer_passed := flyer_passed (users w' ! k)\<rparr>"
    if "k < length (users w)" for k
    using that unfolding p by (rule set_flyer_passed_row)
next
  fix kvs dkvs i k
  assume a: "body req = Some (JObj kvs)
             \<and> map_of kvs (ustr ''data'') = Some (JObj dkvs)
             \<and> map_of dkvs (ustr ''user_id'') = Some (JInt i)"
    and k: "k < length (users w)" and other: "tg_id (users w ! k) \<noteq> i"
  from a have "fst (flyer_webhook w req) = w \<or> fst (flyer_webhook w req) = set_flyer_passed w (Some i)"
    by (auto simp add: flyer_webhook_def py_get_def bind_bigint_def split: option.splits)
  with assms have "w' = w \<or> w' = set_flyer_passed w (Some i)"
    by simp
  with k other show "users w' ! k = users w ! k"
    by (auto simp add: set_flyer_passed_def)
next
  show "\<exists>r. profile (upsert_user w now u src passed) (user_id u) = Some r \<and> last_seen_at r = now"
    by (simp add: profile_upsert_user_same merge_row_def excluded_row_def split: option.splits)
qed

theorem flyer_webhook_frame_witness:
  "flyer_webhook world_two (sub_completed (JInt 42))
     = (\<lparr>users = [row42\<lparr>flyer_passed := True\<rparr>, other_row], traffic_log = [], sent = []\<rparr>,
        Inr status_true)
   \<and> traffic_log (fst (flyer_webhook world_two (sub_completed (JInt 42)))) = []
   \<and> last_seen_at (users (fst (flyer_webhook world_two (sub_completed (JInt 42)))) ! 0) = 9
   \<and> users (fst (flyer_webhook world_two (sub_completed (JInt 42)))) ! 1 = other_row"
proof -
  let ?w' = "\<lparr>users = [row42\<lparr>flyer_passed := True\<rparr>, other_row], traffic_log = [], sent = []\<rparr>"
  have run: "flyer_webhook world_two (sub_completed (JInt 42)) = (?w', Inr status_true)"
    by (simp add: flyer_webhook_def sub_completed_def py_get_def bind_bigint_def
        set_flyer_passed_def world_two_def row42_def other_row_def ustr_type_data)
  note frame = flyer_webhook_frame [OF run, where now = 0 and u = user42 and src = None
      and passed = False]
  have "traffic_log ?w' = []"
    using frame by (simp add: world_two_def)
  moreover have "last_seen_at (users ?w' ! 0) = 9"
  proof -
    from frame have "users ?w' ! 0 = (users world_two ! 0)\<lparr>flyer_passed := flyer_passed (users ?w' ! 0)\<rparr>"
      by (simp add: world_two_def)
    then have "last_seen_at (users ?w' ! 0) = last_seen_at (users world_two ! 0)"
      by (metis user_row.select_convs(6) user_row.surjective user_row.update_convs(4))
    then show ?thesis
      by (simp add: world_two_def row42_def)
  qed
  moreover have "users ?w' ! 1 = other_row"
  proof -
    have "body (sub_completed (JInt 42)) =
        Some (JObj [(ustr ''type'', JStr (ustr ''sub_completed'')),
                    (ustr ''data'', JObj [(ustr ''user_id'', JInt 42)])])
      \<and> map_of [(ustr ''type'', JStr (ustr ''sub_completed'')),
                    (ustr ''data'', JObj [(ustr ''user_id'', JInt 42)])] (ustr ''data'')
          = Some (JObj [(ustr ''user_id'', JInt 42)])
      \<and> map_of [(ustr ''user_id'', JInt 42)] (ustr ''user_id'') = Some (JInt 42)"
      by (simp add: sub_completed_def ustr_type_data)
    moreover have "(1::nat) < length (users world_two)" "tg_id (users world_two ! 1) \<noteq> 42"
      by (simp_all add: world_two_def other_row_def)
    ultimately have "users ?w' ! 1 = users world_two ! 1"
      using frame by blast
    then show ?thesis
      by (simp add: world_two_def)
  qed
  ultimately show ?thesis
    using run by simp
qed

section \<open>Startup configuration\<close>

lemma require_None: "require None name = Inl (RuntimeError ([10060] @ ustr '' Missing '' @ ustr name))"
  by (simp add: require_def)

lemma load_config_missing:
  assumes "env ''BOT_TOKEN'' = None \<or> env ''FLYER_KEY_PREMIUM'' = None
         \<or> env ''FLYER_KEY_REGULAR'' = None \<or> env ''DATABASE_URL'' = None"
  shows "\<exists>e. load_config env = Inl e"
proof (cases "load_config env")
  case (Inl e)
  then show ?thesis by blast
next
  case (Inr cfg)
  then show ?thesis
    using load_config_Inr [OF Inr] assms by auto
qed

lemma load_config_default_port:
  assumes "env ''BOT_TOKEN'' = Some a" "a \<noteq> []"
    and "env ''FLYER_KEY_PREMIUM'' = Some b" "b \<noteq> []"
    and "env ''FLYER_KEY_REGULAR'' = Some c" "c \<noteq> []"
    and "env ''DATABASE_URL'' = Some d" "d \<noteq> []"
    and "env ''PORT'' = None"
  shows "load_config env =
     Inr \<lparr>bot_token = a, flyer_key_premium = b, flyer_key_regular = c, database_url = d,
          port = 8000\<rparr>"
  using assms by (simp add: load_config_def py_int_8000 require_def)

lemma load_config_missing_message:
  assumes "env ''PORT'' = None" and "env ''BOT_TOKEN'' = None"
  shows "load_config env = Inl (RuntimeError ([10060] @ ustr '' Missing BOT_TOKEN''))"
  using assms by (simp add: load_config_def py_int_8000 require_def) (simp add: ustr_def)

text \<open>
  C8. When one of \<open>BOT_TOKEN\<close>, \<open>FLYER_KEY_PREMIUM\<close>, \<open>FLYER_KEY_REGULAR\<close> and
  \<open>DATABASE_URL\<close> is not set, loading the configuration raises, so the module stops
  before anything is started. When the four are set and not empty and \<open>PORT\<close> is not
  set, the configuration is loaded with port 8000.
\<close>

theorem load_config_required:
  "(env ''BOT_TOKEN'' = None \<or> env ''FLYER_KEY_PREMIUM'' = None
      \<or> env ''FLYER_KEY_REGULAR'' = None \<or> env ''DATABASE_URL'' = None \<longrightarrow>
     (\<exists>e. load_config env = Inl e))
   \<and> (env ''BOT_TOKEN'' = Some a \<and> a \<noteq> [] \<and> env ''FLYER_KEY_PREMIUM'' = Some b \<and> b \<noteq> []
      \<and> env ''FLYER_KEY_REGULAR'' = Some c \<and> c \<noteq> [] \<and> env ''DATABASE_URL'' = Some d \<and> d \<noteq> []
      \<and> env ''PORT'' = None \<longrightarrow>
     load_config env =
       Inr \<lparr>bot_token = a, flyer_key_premium = b, flyer_key_regular = c, database_url = d,
            port = 8000\<rparr>)"
  using load_config_missing [of env] load_config_default_port [of env a b c d]
  by blast

theorem load_config_required_witness:
  "load_config example_env = Inr example_config \<and> port example_config = 8000
   \<and> (\<exists>e. load_config (example_env(''BOT_TOKEN'' := None)) = Inl e)
   \<and> (\<exists>e. load_config (example_env(''FLYER_KEY_PREMIUM'' := None)) = Inl e)
   \<and> (\<exists>e. load_config (example_env(''FLYER_KEY_REGULAR'' := None)) = Inl e)
   \<and> (\<exists>e. load_config (example_env(''DATABASE_URL'' := None)) = Inl e)"
proof (intro conjI)
  show "load_config example_env = Inr example_config"
    using load_config_required [where env = example_env and a = "ustr ''token''"
        and b = "ustr ''key-premium''" and c = "ustr ''key-regular''"
        and d = "ustr ''postgres://db''"]
    by (simp add: example_env_def example_config_def)
  show "port example_config = 8000"
    by (simp add: example_config_def)
  show "\<exists>e. load_config (example_env(''BOT_TOKEN'' := None)) = Inl e"
    using load_config_required [where env = "example_env(''BOT_TOKEN'' := None)"] by simp
  show "\<exists>e. load_config (example_env(''FLYER_KEY_PREMIUM'' := None)) = Inl e"
    using load_config_required [where env = "example_env(''FLYER_KEY_PREMIUM'' := None)"] by simp
  show "\<exists>e. load_config (example_env(''FLYER_KEY_REGULAR'' := None)) = Inl e"
    using load_config_required [where env = "example_env(''FLYER_KEY_REGULAR'' := None)"] by simp
  show "\<exists>e. load_config (example_env(''DATABASE_URL'' := None)) = Inl e"
    using load_config_required [where env = "example_env(''DATABASE_URL'' := None)"] by simp
qed

section \<open>One row per identity\<close>















end
